theory Spec2Isabelle
  imports Main "HOL-Library.Finite_Map"
begin

section \<open>JavaScript values\<close>

text \<open>
  The eventual state of a promise. Every callback of one interception runs in a
  single chain, so a promise is represented by the state it ends in: fulfilled with
  a value, rejected with a reason, or never settled.
\<close>

datatype 'a settlement = Fulfilled 'a | Rejected 'a | Pending

text \<open>
  The values the program handles.
  \<^item> \<open>Num\<close>: numbers; only their truthiness is ever inspected (\<open>NaN\<close> is left out).
  \<^item> \<open>Fn k\<close>: a function, by its index \<open>k\<close> in a table of behaviours.
    Functions are taken to carry no own enumerable properties.
  \<^item> \<open>Obj m\<close>: a plain object, as the finite map of its own enumerable properties.
    The order of the keys is not modelled. A thenable is always written \<open>Promise\<close>.
  \<^item> \<open>Promise s\<close>: a promise and the state it ends in.
  \<^item> \<open>JsError msg\<close>: the object made by \<open>new Error(msg)\<close>.
  \<^item> \<open>JsTypeError\<close>: a \<open>TypeError\<close> raised by the engine (reading a property of
    \<open>null\<close> or \<open>undefined\<close>, calling a value that is not a function).
\<close>

datatype jsval =
    Undefined
  | Null
  | Bool bool
  | Num int
  | Str string
  | Fn nat
  | Obj "(string, jsval) fmap"
  | Promise "jsval settlement"
  | JsError string
  | JsTypeError

text \<open>
  A computation that may throw: \<open>Inl\<close> carries the thrown value, \<open>Inr\<close> the
  returned one.
\<close>

type_synonym 'a result = "jsval + 'a"

text \<open>
  The table of function behaviours: \<open>E k this args\<close> is what calling function \<open>k\<close>
  on receiver \<open>this\<close> with arguments \<open>args\<close> does, a throw or a return. A
  function is taken to return or throw, to do the same on the same arguments, and to
  dispatch nothing itself.
\<close>

type_synonym fenv = "nat \<Rightarrow> jsval \<Rightarrow> jsval list \<Rightarrow> jsval result"

text \<open>
  What an interception does that the outside can see, in order: the actions handed to
  the store's \<open>dispatch\<close>, and the calls into the function table (the request
  primitive, the \<open>json\<close> member, \<open>onSuccess\<close>, \<open>onFailure\<close>).
\<close>

datatype event = Dispatch jsval | Call nat jsval "jsval list"

text \<open>A computation with its events: the result and the trace it leaves.\<close>

type_synonym 'a comp = "'a result \<times> event list"

subsection \<open>Primitive operations of the language\<close>

text \<open>Truthiness, as \<open>!x\<close> and \<open>if (x)\<close> test it.\<close>

fun truthy :: "jsval \<Rightarrow> bool" where
  "truthy Undefined = False"
| "truthy Null = False"
| "truthy (Bool b) = b"
| "truthy (Num n) = (n \<noteq> 0)"
| "truthy (Str s) = (s \<noteq> [])"
| "truthy _ = True"

text \<open>
  Reading a property \<open>v.name\<close>. On \<open>null\<close> and \<open>undefined\<close> it throws. The
  program reads only the names \<open>API\<close>, \<open>payload\<close>, \<open>type\<close>, \<open>url\<close>,
  \<open>onSuccess\<close>, \<open>onFailure\<close>, \<open>actionTypes\<close>, \<open>start\<close>, \<open>end\<close>,
  \<open>failure\<close>, \<open>requestDefaults\<close> and \<open>json\<close>; no primitive, function, promise
  or error object has any of them.
\<close>

fun getProp :: "jsval \<Rightarrow> string \<Rightarrow> jsval result" where
  "getProp Undefined name = Inl JsTypeError"
| "getProp Null name = Inl JsTypeError"
| "getProp (Obj m) name = (case fmlookup m name of Some v \<Rightarrow> Inr v | None \<Rightarrow> Inr Undefined)"
| "getProp _ name = Inr Undefined"

text \<open>The decimal numeral of a natural number, the key of a string's index property.\<close>

function decimal :: "nat \<Rightarrow> string" where
  "decimal n = (if n < 10 then [char_of (48 + n)]
                else decimal (n div 10) @ [char_of (48 + n mod 10)])"
  by pat_completeness auto
termination
  by (relation "measure (\<lambda>n. n)") auto

text \<open>
  The own enumerable properties of a value, as \<open>Object.assign\<close> and a rest pattern
  copy them: those of an object, the index properties of a string, none otherwise.
\<close>

fun ownProps :: "jsval \<Rightarrow> (string, jsval) fmap" where
  "ownProps (Obj m) = m"
| "ownProps (Str s) = fmap_of_list (zip (map decimal [0..<length s]) (map (\<lambda>c. Str [c]) s))"
| "ownProps _ = fmempty"

text \<open>
  \<open>Object.assign(target, ...sources)\<close> on a fresh target: each source in turn
  overwrites the keys it has. A \<open>null\<close> or \<open>undefined\<close> source has no properties.
\<close>

definition objectAssign :: "(string, jsval) fmap \<Rightarrow> jsval list \<Rightarrow> (string, jsval) fmap" where
  "objectAssign target sources = fold (\<lambda>src t. t ++\<^sub>f ownProps src) sources target"

text \<open>Calling a value: a \<open>TypeError\<close> unless it is a function.\<close>

fun callFn :: "fenv \<Rightarrow> jsval \<Rightarrow> jsval \<Rightarrow> jsval list \<Rightarrow> jsval comp" where
  "callFn E (Fn k) this args = (E k this args, [Call k this args])"
| "callFn E _ this args = (Inl JsTypeError, [])"

text \<open>Sequencing: the second computation runs unless the first throws.\<close>

definition seq :: "'a comp \<Rightarrow> ('a \<Rightarrow> 'b comp) \<Rightarrow> 'b comp" where
  "seq m f = (case m of
                (Inl e, t) \<Rightarrow> (Inl e, t)
              | (Inr v, t) \<Rightarrow> (case f v of (r, t') \<Rightarrow> (r, t @ t')))"

text \<open>A computation that returns a value and does nothing else.\<close>

definition ret :: "'a \<Rightarrow> 'a comp" where
  "ret v = (Inr v, [])"

text \<open>An expression that may throw, evaluated without events.\<close>

definition lift :: "'a result \<Rightarrow> 'a comp" where
  "lift r = (r, [])"

subsection \<open>Promises\<close>

text \<open>
  The state of a promise that was resolved with a value: resolving with a promise
  takes over the state of that promise, so a callback never receives a promise as the
  fulfilment value.
\<close>

function resolved :: "jsval settlement \<Rightarrow> jsval settlement" where
  "resolved s = (case s of Fulfilled (Promise s') \<Rightarrow> resolved s' | _ \<Rightarrow> s)"
  by pat_completeness auto
termination
  by (relation "measure (size_settlement size)") auto

text \<open>
  What a promise becomes when a callback of \<open>then\<close> ends: rejected with what the
  callback threw, or resolved with what it returned.
\<close>

fun settle :: "jsval result \<Rightarrow> jsval settlement" where
  "settle (Inl e) = Rejected e"
| "settle (Inr v) = resolved (Fulfilled v)"

text \<open>
  \<open>p.then(onFulfilled, onRejected)\<close>: the callback matching the state of \<open>p\<close>
  runs; a pending \<open>p\<close> runs neither.
\<close>

definition promiseThen :: "(jsval \<Rightarrow> jsval comp) \<Rightarrow> (jsval \<Rightarrow> jsval comp) \<Rightarrow>
    jsval settlement \<Rightarrow> jsval settlement \<times> event list" where
  "promiseThen onFulfilled onRejected p =
     (case resolved p of
        Pending \<Rightarrow> (Pending, [])
      | Fulfilled v \<Rightarrow> (case onFulfilled v of (r, t) \<Rightarrow> (settle r, t))
      | Rejected e \<Rightarrow> (case onRejected e of (r, t) \<Rightarrow> (settle r, t)))"

text \<open>\<open>then\<close> with no rejection handler passes a rejection on.\<close>

definition rethrow :: "jsval \<Rightarrow> jsval comp" where
  "rethrow e = (Inl e, [])"

text \<open>
  \<open>p.finally(cb)\<close>: the callback runs once \<open>p\<close> has settled; the result keeps the
  state of \<open>p\<close> unless the callback throws.
\<close>

definition promiseFinally :: "jsval comp \<Rightarrow> jsval settlement \<Rightarrow>
    jsval settlement \<times> event list" where
  "promiseFinally cb p =
     (case resolved p of
        Pending \<Rightarrow> (Pending, [])
      | s \<Rightarrow> (case cb of (Inl e, t) \<Rightarrow> (Rejected e, t) | (Inr _, t) \<Rightarrow> (s, t)))"

section \<open>The program\<close>

definition isString :: "jsval \<Rightarrow> bool" where
  "isString str = (case str of Str _ \<Rightarrow> True | _ \<Rightarrow> False)"

definition isFunction :: "jsval \<Rightarrow> bool" where
  "isFunction func = (case func of Fn _ \<Rightarrow> True | _ \<Rightarrow> False)"

definition logError :: "string \<Rightarrow> 'a result" where
  "logError message = Inl (JsError (''redux-api-middleware: '' @ message))"

definition defaults :: jsval where
  "defaults = Obj (fmap_of_list
     [(''actionTypes'', Obj (fmap_of_list
         [(''start'', Str ''API_REQUEST_START''),
          (''end'', Str ''API_REQUEST_END''),
          (''failure'', Str ''API_REQUEST_FAILURE'')])),
      (''requestDefaults'', Obj fmempty)])"

text \<open>
  What the closure returned by \<open>createApiMiddleware\<close> holds: the request primitive,
  the \<open>options\<close> argument (after its default) and the merged \<open>opts\<close>.
\<close>

record middleware =
  mw_request :: jsval
  mw_options :: jsval
  mw_opts :: jsval

definition createApiMiddleware :: "jsval \<Rightarrow> jsval \<Rightarrow> middleware result" where
  "createApiMiddleware request options_arg =
     (let options = (if options_arg = Undefined then Obj fmempty else options_arg) in
      if \<not> truthy request then
        logError ''Missing a request object as the first argument. Try passing `fetch` or `axios`''
      else
        Inr \<lparr>mw_request = request,
             mw_options = options,
             mw_opts = Obj (objectAssign fmempty [defaults, options])\<rparr>)"

text \<open>\<open>opts.actionTypes.name\<close>, which throws when \<open>opts.actionTypes\<close> is nullish.\<close>

definition actionType :: "middleware \<Rightarrow> string \<Rightarrow> jsval result" where
  "actionType mw name =
     (case getProp (mw_opts mw) ''actionTypes'' of
        Inl e \<Rightarrow> Inl e
      | Inr ats \<Rightarrow> getProp ats name)"

text \<open>
  The \<open>dispatch\<close> of the store handed to the middleware: the action is recorded. It
  is taken to return, and what it returns is never used.
\<close>

definition dispatch :: "jsval \<Rightarrow> jsval comp" where
  "dispatch a = (Inr Undefined, [Dispatch a])"

text \<open>A property of a value that is known not to be nullish.\<close>

definition field :: "jsval \<Rightarrow> string \<Rightarrow> jsval" where
  "field v name = (case getProp v name of Inr x \<Rightarrow> x | Inl _ \<Rightarrow> Undefined)"

text \<open>The first \<open>then\<close> callback: decode through \<open>json\<close> when the response has one.\<close>

definition normalize :: "fenv \<Rightarrow> jsval \<Rightarrow> jsval comp" where
  "normalize E res =
     seq (lift (getProp res ''json'')) (\<lambda>json.
       if isFunction json then callFn E json res [] else ret res)"

text \<open>The fulfilment callback of the second \<open>then\<close>.\<close>

definition successBranch :: "fenv \<Rightarrow> jsval \<Rightarrow> jsval \<Rightarrow> jsval comp" where
  "successBranch E onSuccess res =
     seq (if isFunction onSuccess
          then seq (callFn E onSuccess Undefined [res]) dispatch
          else ret Undefined) (\<lambda>_.
       ret res)"

text \<open>The rejection callback of the second \<open>then\<close>.\<close>

definition failureBranch :: "fenv \<Rightarrow> middleware \<Rightarrow> jsval \<Rightarrow> jsval \<Rightarrow> jsval \<Rightarrow> jsval comp" where
  "failureBranch E mw type onFailure error =
     seq (if truthy type
          then seq (lift (actionType mw ''failure'')) (\<lambda>label.
                 dispatch (Obj (fmap_of_list
                   [(''type'', label), (''payload'', error), (''error'', Bool True)])))
          else ret Undefined) (\<lambda>_.
     seq (if isFunction onFailure
          then seq (callFn E onFailure Undefined [error]) dispatch
          else ret Undefined) (\<lambda>_.
       ret Undefined))"

text \<open>The callback of \<open>finally\<close>.\<close>

definition endTransition :: "middleware \<Rightarrow> jsval \<Rightarrow> jsval comp" where
  "endTransition mw type =
     (if truthy type
      then seq (lift (actionType mw ''end'')) (\<lambda>label.
             dispatch (Obj (fmap_of_list [(''type'', label), (''payload'', type)])))
      else ret Undefined)"

text \<open>
  The chain \<open>.then(...).then(..., ...).finally(...)\<close> on the promise the request
  primitive returned: the state of the last promise and the events of the callbacks.
\<close>

definition chain :: "fenv \<Rightarrow> middleware \<Rightarrow> jsval \<Rightarrow> jsval \<Rightarrow> jsval \<Rightarrow>
    jsval settlement \<Rightarrow> jsval settlement \<times> event list" where
  "chain E mw type onSuccess onFailure p =
     (case promiseThen (normalize E) rethrow p of (p1, t1) \<Rightarrow>
      case promiseThen (successBranch E onSuccess) (failureBranch E mw type onFailure) p1 of
        (p2, t2) \<Rightarrow>
      case promiseFinally (endTransition mw type) p2 of (p3, t3) \<Rightarrow>
        (p3, t1 @ t2 @ t3))"

text \<open>
  \<open>request(url, requestOptions).then(...)...\<close>: the call throws when \<open>request\<close>
  is not a function or throws itself, and reading \<open>then\<close> off anything but a promise
  ends in a \<open>TypeError\<close>.
\<close>

definition sendRequest :: "fenv \<Rightarrow> middleware \<Rightarrow> jsval \<Rightarrow> jsval \<Rightarrow> jsval \<Rightarrow>
    jsval \<Rightarrow> jsval \<Rightarrow> jsval comp" where
  "sendRequest E mw type url onSuccess onFailure requestOptions =
     seq (callFn E (mw_request mw) Undefined [url, requestOptions]) (\<lambda>returned.
       case returned of
         Promise p \<Rightarrow>
           (case chain E mw type onSuccess onFailure p of (p3, t) \<Rightarrow> (Inr (Promise p3), t))
       | _ \<Rightarrow> (Inl JsTypeError, []))"

text \<open>
  The interceptor \<open>next => action => ...\<close> of a middleware. \<open>nxt\<close> is the next link
  of the store's chain. The result is what the interceptor returns or throws, with the
  events of the whole interception, the callbacks of the promise chain included.
\<close>

definition apiMiddleware :: "fenv \<Rightarrow> middleware \<Rightarrow> (jsval \<Rightarrow> jsval result) \<Rightarrow>
    jsval \<Rightarrow> jsval comp" where
  "apiMiddleware E mw nxt action =
     seq (lift (getProp action ''API'')) (\<lambda>api.
       if \<not> truthy api then lift (nxt action)
       else
     seq (lift (getProp api ''payload'')) (\<lambda>payload.
       if payload = Undefined \<or> payload = Null then lift (Inl JsTypeError)
       else
         let type = field payload ''type'';
             url = field payload ''url'';
             onSuccess = field payload ''onSuccess'';
             onFailure = field payload ''onFailure'';
             restConfig = fmdrop_fset {|''type'', ''url'', ''onSuccess'', ''onFailure''|}
                            (ownProps payload)
         in
     seq (if truthy type
          then seq (lift (actionType mw ''start'')) (\<lambda>label.
                 dispatch (Obj (fmap_of_list [(''type'', label), (''payload'', type)])))
          else ret Undefined) (\<lambda>_.
     seq (lift (getProp (mw_options mw) ''requestDefaults'')) (\<lambda>requestDefaults.
       let requestOptions = Obj (objectAssign fmempty [requestDefaults, Obj restConfig]) in
       sendRequest E mw type url onSuccess onFailure requestOptions))))"

text \<open>
  \<open>apiRequest(url, {type, ...rest} = {})\<close>. The parameter pattern is matched before
  the body runs, and matching it against \<open>null\<close> throws. In the payload the spread
  \<open>rest\<close> comes after \<open>url\<close>, so a \<open>url\<close> among the options replaces it.
\<close>

definition apiRequest :: "jsval \<Rightarrow> jsval \<Rightarrow> jsval result" where
  "apiRequest url options_arg =
     (let options = (if options_arg = Undefined then Obj fmempty else options_arg) in
      if options = Null then Inl JsTypeError
      else
        let type = field options ''type'';
            rest = fmdrop ''type'' (ownProps options)
        in
        if \<not> isString url then
          logError ''apiRequest requires a string as the first argument''
        else
          Inr (Obj (fmap_of_list
            [(''API'', Obj (fmap_of_list
               [(''payload'', Obj (fmap_of_list [(''type'', type), (''url'', url)] ++\<^sub>f rest))]))])))"

section \<open>Notions used to state the properties\<close>

text \<open>The actions handed to \<open>dispatch\<close>, in order.\<close>

fun dispatched :: "event list \<Rightarrow> jsval list" where
  "dispatched [] = []"
| "dispatched (Dispatch a # t) = a # dispatched t"
| "dispatched (Call k this args # t) = dispatched t"

text \<open>
  A Tagged Action: \<open>action.API\<close> is truthy and \<open>action.API.payload\<close> is the
  value \<open>payload\<close>, which the interceptor can destructure.
\<close>

definition tagged :: "jsval \<Rightarrow> jsval \<Rightarrow> bool" where
  "tagged action payload =
     (case getProp action ''API'' of
        Inl _ \<Rightarrow> False
      | Inr api \<Rightarrow> truthy api \<and> getProp api ''payload'' = Inr payload \<and>
                  payload \<noteq> Undefined \<and> payload \<noteq> Null)"

text \<open>The configured \<open>actionTypes\<close> is a value whose members can be read.\<close>

definition labelsReadable :: "middleware \<Rightarrow> bool" where
  "labelsReadable mw =
     (case getProp (mw_opts mw) ''actionTypes'' of
        Inl _ \<Rightarrow> False
      | Inr ats \<Rightarrow> ats \<noteq> Undefined \<and> ats \<noteq> Null)"

text \<open>The label a middleware uses for a lifecycle action.\<close>

definition label :: "middleware \<Rightarrow> string \<Rightarrow> jsval" where
  "label mw name = field (field (mw_opts mw) ''actionTypes'') name"

text \<open>
  The outcome of a request: the state of the promise after the normalisation step,
  fulfilled with the normalised payload, or rejected at the request or at the decoding.
\<close>

definition outcome :: "fenv \<Rightarrow> jsval settlement \<Rightarrow> jsval settlement" where
  "outcome E p = fst (promiseThen (normalize E) rethrow p)"

text \<open>The events of the normalisation step: the call of \<open>json\<close>, if any.\<close>

definition decodeEvents :: "fenv \<Rightarrow> jsval settlement \<Rightarrow> event list" where
  "decodeEvents E p = snd (promiseThen (normalize E) rethrow p)"

text \<open>
  What a continuation \<open>cb\<close> contributes when it is given \<open>arg\<close>: nothing unless it
  is callable; its call, and the dispatch of the action it returns unless it throws.
\<close>

definition callbackEvents :: "fenv \<Rightarrow> jsval \<Rightarrow> jsval \<Rightarrow> event list" where
  "callbackEvents E cb arg =
     (case cb of
        Fn k \<Rightarrow> Call k Undefined [arg] #
                 (case E k Undefined [arg] of Inr a \<Rightarrow> [Dispatch a] | Inl _ \<Rightarrow> [])
      | _ \<Rightarrow> [])"

text \<open>The action a callable continuation returns, if it returns.\<close>

definition continuation :: "fenv \<Rightarrow> jsval \<Rightarrow> jsval \<Rightarrow> jsval list" where
  "continuation E cb arg =
     (case cb of
        Fn k \<Rightarrow> (case E k Undefined [arg] of Inr a \<Rightarrow> [a] | Inl _ \<Rightarrow> [])
      | _ \<Rightarrow> [])"

text \<open>What a callable continuation throws, if it throws.\<close>

definition thrownBy :: "fenv \<Rightarrow> jsval \<Rightarrow> jsval \<Rightarrow> jsval option" where
  "thrownBy E cb arg =
     (case cb of
        Fn k \<Rightarrow> (case E k Undefined [arg] of Inl x \<Rightarrow> Some x | Inr _ \<Rightarrow> None)
      | _ \<Rightarrow> None)"

text \<open>The start or end lifecycle action, dispatched when \<open>type\<close> is truthy.\<close>

definition lifecycle :: "jsval \<Rightarrow> jsval \<Rightarrow> event list" where
  "lifecycle lbl type =
     (if truthy type
      then [Dispatch (Obj (fmap_of_list [(''type'', lbl), (''payload'', type)]))]
      else [])"

text \<open>The failure lifecycle action, dispatched when \<open>type\<close> is truthy.\<close>

definition failureEvents :: "jsval \<Rightarrow> jsval \<Rightarrow> jsval \<Rightarrow> event list" where
  "failureEvents lbl type error =
     (if truthy type
      then [Dispatch (Obj (fmap_of_list
              [(''type'', lbl), (''payload'', error), (''error'', Bool True)]))]
      else [])"

text \<open>
  The extra fields of a payload: every own property other than \<open>type\<close>, \<open>url\<close>,
  \<open>onSuccess\<close> and \<open>onFailure\<close>.
\<close>

definition extraFields :: "jsval \<Rightarrow> (string, jsval) fmap" where
  "extraFields payload =
     fmdrop_fset {|''type'', ''url'', ''onSuccess'', ''onFailure''|} (ownProps payload)"

text \<open>The configured \<open>requestDefaults\<close> with the extra fields of a payload laid over.\<close>

definition requestOptions :: "middleware \<Rightarrow> jsval \<Rightarrow> jsval" where
  "requestOptions mw payload =
     Obj (ownProps (field (mw_options mw) ''requestDefaults'') ++\<^sub>f extraFields payload)"

text \<open>
  An interception that reaches the promise chain: the action is tagged with \<open>payload\<close>,
  the configuration can be read, and the request primitive is function \<open>r\<close>, which,
  called with the url and the merged options, returns a promise that ends in state \<open>p\<close>.
\<close>

definition intercepted :: "fenv \<Rightarrow> middleware \<Rightarrow> jsval \<Rightarrow> jsval \<Rightarrow> nat \<Rightarrow>
    jsval settlement \<Rightarrow> bool" where
  "intercepted E mw action payload r p =
     (tagged action payload \<and> labelsReadable mw \<and>
      mw_options mw \<noteq> Undefined \<and> mw_options mw \<noteq> Null \<and>
      mw_request mw = Fn r \<and>
      E r Undefined [field payload ''url'', requestOptions mw payload] = Inr (Promise p))"

subsection \<open>Concrete inputs\<close>

text \<open>
  A function table for the examples:
  \<^item> 0: a request primitive that resolves with \<open>"R"\<close>;
  \<^item> 1: a request primitive that rejects with \<open>"E"\<close>;
  \<^item> 2: a request primitive that resolves with \<open>null\<close>;
  \<^item> 3: the continuation \<open>x => ({type: "OK", payload: x})\<close>;
  \<^item> 4: a continuation that throws \<open>"boom"\<close>;
  \<^item> 5: a request primitive that resolves with a response \<open>{json: f6}\<close>;
  \<^item> 6: a \<open>json\<close> member that resolves with \<open>"some json"\<close>.
\<close>

definition exampleEnv :: fenv where
  "exampleEnv k this args =
     (if k = 0 then Inr (Promise (Fulfilled (Str ''R'')))
      else if k = 1 then Inr (Promise (Rejected (Str ''E'')))
      else if k = 2 then Inr (Promise (Fulfilled Null))
      else if k = 3 then Inr (Obj (fmap_of_list [(''type'', Str ''OK''), (''payload'', case args of [] \<Rightarrow> Undefined | x # _ \<Rightarrow> x)]))
      else if k = 4 then Inl (Str ''boom'')
      else if k = 5 then Inr (Promise (Fulfilled (Obj (fmap_of_list [(''json'', Fn 6)]))))
      else if k = 6 then Inr (Promise (Fulfilled (Str ''some json'')))
      else Inr Undefined)"

text \<open>The middleware \<open>createApiMiddleware(request, config)\<close> returns.\<close>

definition created :: "jsval \<Rightarrow> jsval \<Rightarrow> middleware" where
  "created request config = projr (createApiMiddleware request config)"

text \<open>The action \<open>apiRequest(url, options)\<close> returns.\<close>

definition built :: "jsval \<Rightarrow> jsval \<Rightarrow> jsval" where
  "built url options = projr (apiRequest url options)"

section \<open>Properties\<close>

subsection \<open>Promise resolution\<close>

declare resolved.simps [simp del]

lemma resolved_Pending [simp]: "resolved Pending = Pending"
  by (simp add: resolved.simps)

lemma resolved_Rejected [simp]: "resolved (Rejected e) = Rejected e"
  by (simp add: resolved.simps)

lemma resolved_Promise [simp]: "resolved (Fulfilled (Promise s)) = resolved s"
  by (subst resolved.simps) simp

lemma resolved_value: "(\<And>s. v \<noteq> Promise s) \<Longrightarrow> resolved (Fulfilled v) = Fulfilled v"
  by (subst resolved.simps) (simp split: jsval.splits)

lemma resolved_idem [simp]: "resolved (resolved s) = resolved s"
proof (induction s rule: resolved.induct)
  case (1 s)
  show ?case
  proof (cases s)
    case (Fulfilled v)
    show ?thesis
    proof (cases v)
      case (Promise q)
      with Fulfilled 1 show ?thesis by simp
    qed (simp_all add: Fulfilled resolved_value)
  qed simp_all
qed

lemma resolved_settle [simp]: "resolved (settle r) = settle r"
  by (cases r) simp_all

lemma outcome_resolved: "outcome E p = s \<Longrightarrow> resolved s = s"
  by (auto simp: outcome_def promiseThen_def split: settlement.splits prod.splits)

subsection \<open>The pieces of the interceptor\<close>

lemma getProp_field: "v \<noteq> Undefined \<Longrightarrow> v \<noteq> Null \<Longrightarrow> getProp v name = Inr (field v name)"
  by (cases v) (auto simp: field_def split: option.splits)

lemma actionType_label: "labelsReadable mw \<Longrightarrow> actionType mw name = Inr (label mw name)"
  by (auto simp: labelsReadable_def actionType_def label_def getProp_field split: sum.splits)
     (simp add: field_def)

lemma endTransition_eq:
  "labelsReadable mw \<Longrightarrow>
   endTransition mw type = (Inr Undefined, lifecycle (label mw ''end'') type)"
  by (simp add: endTransition_def actionType_label seq_def lift_def dispatch_def ret_def
      lifecycle_def)

lemma successBranch_eq:
  "successBranch E onSuccess v =
     (case thrownBy E onSuccess v of None \<Rightarrow> Inr v | Some x \<Rightarrow> Inl x,
      callbackEvents E onSuccess v)"
  by (cases onSuccess; cases "E (case onSuccess of Fn k \<Rightarrow> k) Undefined [v]")
     (simp_all add: successBranch_def thrownBy_def callbackEvents_def isFunction_def seq_def
       ret_def dispatch_def)

lemma failureBranch_eq:
  "labelsReadable mw \<Longrightarrow> failureBranch E mw type onFailure e =
     (case thrownBy E onFailure e of None \<Rightarrow> Inr Undefined | Some x \<Rightarrow> Inl x,
      failureEvents (label mw ''failure'') type e @ callbackEvents E onFailure e)"
  by (cases onFailure; cases "E (case onFailure of Fn k \<Rightarrow> k) Undefined [e]")
     (simp_all add: failureBranch_def thrownBy_def callbackEvents_def isFunction_def seq_def
       ret_def dispatch_def actionType_label lift_def failureEvents_def)

lemma chain_rejected:
  assumes "labelsReadable mw" and "outcome E p = Rejected e"
  shows "chain E mw type onSuccess onFailure p =
     (case thrownBy E onFailure e of None \<Rightarrow> Fulfilled Undefined | Some x \<Rightarrow> Rejected x,
      decodeEvents E p @ failureEvents (label mw ''failure'') type e @
      callbackEvents E onFailure e @ lifecycle (label mw ''end'') type)"
proof -
  obtain t1 where t1: "promiseThen (normalize E) rethrow p = (Rejected e, t1)"
    using assms(2) by (cases "promiseThen (normalize E) rethrow p") (simp add: outcome_def)
  show ?thesis
    using assms(1)
    by (simp add: chain_def t1 decodeEvents_def promiseThen_def [of "successBranch E onSuccess"]
        failureBranch_eq promiseFinally_def endTransition_eq resolved_value
        split: option.splits)
qed

lemma chain_fulfilled:
  assumes "labelsReadable mw" and "outcome E p = Fulfilled v"
  shows "chain E mw type onSuccess onFailure p =
     (case thrownBy E onSuccess v of None \<Rightarrow> Fulfilled v | Some x \<Rightarrow> Rejected x,
      decodeEvents E p @ callbackEvents E onSuccess v @ lifecycle (label mw ''end'') type)"
proof -
  obtain t1 where t1: "promiseThen (normalize E) rethrow p = (Fulfilled v, t1)"
    using assms(2) by (cases "promiseThen (normalize E) rethrow p") (simp add: outcome_def)
  have stable: "resolved (Fulfilled v) = Fulfilled v"
    using outcome_resolved [OF assms(2)] .
  show ?thesis
    using assms(1)
    by (simp add: chain_def t1 decodeEvents_def promiseThen_def [of "successBranch E onSuccess"]
        successBranch_eq promiseFinally_def endTransition_eq stable
        split: option.splits)
qed

lemma chain_pending:
  assumes "outcome E p = Pending"
  shows "chain E mw type onSuccess onFailure p = (Pending, decodeEvents E p)"
proof -
  obtain t1 where t1: "promiseThen (normalize E) rethrow p = (Pending, t1)"
    using assms by (cases "promiseThen (normalize E) rethrow p") (simp add: outcome_def)
  show ?thesis
    by (simp add: chain_def t1 decodeEvents_def promiseThen_def [of "successBranch E onSuccess"]
        promiseFinally_def)
qed

lemma tagged_run:
  assumes "tagged action payload" and "labelsReadable mw"
    and "getProp (mw_options mw) ''requestDefaults'' = Inr rd"
  shows "apiMiddleware E mw nxt action =
     seq (Inr Undefined, lifecycle (label mw ''start'') (field payload ''type'')) (\<lambda>_.
       sendRequest E mw (field payload ''type'') (field payload ''url'')
         (field payload ''onSuccess'') (field payload ''onFailure'')
         (Obj (ownProps rd ++\<^sub>f
               fmdrop_fset {|''type'', ''url'', ''onSuccess'', ''onFailure''|} (ownProps payload))))"
  using assms
  by (auto simp: apiMiddleware_def tagged_def seq_def lift_def ret_def dispatch_def Let_def
      actionType_label lifecycle_def objectAssign_def split: sum.splits prod.splits)

lemma intercepted_run:
  assumes "intercepted E mw action payload r p"
  shows "apiMiddleware E mw nxt action =
     (Inr (Promise (fst (chain E mw (field payload ''type'') (field payload ''onSuccess'')
                           (field payload ''onFailure'') p))),
      lifecycle (label mw ''start'') (field payload ''type'') @
      Call r Undefined [field payload ''url'', requestOptions mw payload] #
      snd (chain E mw (field payload ''type'') (field payload ''onSuccess'')
             (field payload ''onFailure'') p))"
proof -
  have rd: "getProp (mw_options mw) ''requestDefaults'' =
      Inr (field (mw_options mw) ''requestDefaults'')"
    using assms by (simp add: intercepted_def getProp_field)
  have tg: "tagged action payload" and lr: "labelsReadable mw"
    using assms by (simp_all add: intercepted_def)
  have call: "callFn E (mw_request mw) Undefined
      [field payload ''url'', requestOptions mw payload] =
      (Inr (Promise p), [Call r Undefined [field payload ''url'', requestOptions mw payload]])"
    using assms by (simp add: intercepted_def)
  show ?thesis
    unfolding tagged_run [OF tg lr rd] sendRequest_def
      requestOptions_def [symmetric, unfolded extraFields_def] call
    by (simp add: seq_def split: prod.splits)
qed

text \<open>
  A middleware made from a configuration that is not \<open>null\<close> and whose
  \<open>actionTypes\<close>, if any, is neither \<open>null\<close> nor \<open>undefined\<close> can read its
  labels and its \<open>requestDefaults\<close>.
\<close>

lemma created_readable:
  assumes "createApiMiddleware request config = Inr mw" and "config \<noteq> Null"
    and "fmlookup (ownProps config) ''actionTypes'' \<noteq> Some Undefined"
    and "fmlookup (ownProps config) ''actionTypes'' \<noteq> Some Null"
  shows "labelsReadable mw" and "mw_options mw \<noteq> Undefined" and "mw_options mw \<noteq> Null"
    and "mw_request mw = request"
  using assms
  by (auto simp: createApiMiddleware_def Let_def logError_def labelsReadable_def
      objectAssign_def defaults_def fmlookup_of_list fmlookup_dom_iff
      split: if_splits option.splits)

subsection \<open>Traces\<close>

lemma dispatched_append [simp]: "dispatched (s @ t) = dispatched s @ dispatched t"
  by (induction s rule: dispatched.induct) simp_all

lemma dispatched_callbackEvents [simp]:
  "dispatched (callbackEvents E cb arg) = continuation E cb arg"
  by (simp add: callbackEvents_def continuation_def split: jsval.splits sum.splits)

lemma dispatched_decodeEvents [simp]: "dispatched (decodeEvents E p) = []"
proof (cases "resolved p")
  case (Fulfilled res)
  show ?thesis
  proof (cases "getProp res ''json''")
    case (Inl e)
    then show ?thesis
      by (simp add: decodeEvents_def promiseThen_def Fulfilled normalize_def seq_def lift_def)
  next
    case (Inr j)
    then show ?thesis
      by (cases j; cases "E (case j of Fn k \<Rightarrow> k) res []")
         (simp_all add: decodeEvents_def promiseThen_def Fulfilled normalize_def seq_def
           lift_def isFunction_def ret_def)
  qed
qed (simp_all add: decodeEvents_def promiseThen_def rethrow_def)

text \<open>The equations that evaluate the program on a concrete input.\<close>

lemmas eval_defs = intercepted_def tagged_def labelsReadable_def created_def built_def
  createApiMiddleware_def apiRequest_def isString_def isFunction_def field_def
  objectAssign_def defaults_def exampleEnv_def requestOptions_def extraFields_def
  label_def outcome_def promiseThen_def normalize_def seq_def lift_def ret_def rethrow_def
  continuation_def thrownBy_def fmlookup_of_list fmdrop_fmupd resolved_value Let_def
  logError_def

subsection \<open>Construction\<close>

text \<open>
  C8. Whatever the configuration, \<open>createApiMiddleware\<close> called without a request
  primitive (more generally, with a falsy one) throws at once, with the error of
  \<open>logError\<close>, and returns no middleware.
\<close>

theorem createApiMiddleware_requires_request:
  "\<not> truthy request \<Longrightarrow>
   createApiMiddleware request config =
     Inl (JsError (''redux-api-middleware: '' @
       ''Missing a request object as the first argument. Try passing `fetch` or `axios`''))"
  by (simp add: createApiMiddleware_def logError_def Let_def)

theorem createApiMiddleware_requires_request_witness:
  "\<not> truthy Undefined \<and>
   createApiMiddleware Undefined
     (Obj (fmap_of_list [(''requestDefaults'', Obj fmempty)])) =
     Inl (JsError (''redux-api-middleware: '' @
       ''Missing a request object as the first argument. Try passing `fetch` or `axios`''))"
proof -
  have h: "\<not> truthy Undefined" by simp
  show ?thesis
    using h createApiMiddleware_requires_request [OF h] by simp
qed

text \<open>
  C2, as the code has it. The claim counts the empty string among the urls that are
  refused. The check is \<open>isString\<close> alone: the empty string is accepted and a Tagged
  Action comes back.
\<close>

theorem apiRequest_empty_url_counterexample:
  "apiRequest (Str '''') Undefined =
     Inr (Obj (fmap_of_list [(''API'', Obj (fmap_of_list [(''payload'',
       Obj (fmap_of_list [(''type'', Undefined), (''url'', Str '''')]))]))]))"
  by (simp add: apiRequest_def isString_def field_def)

text \<open>
  C2, amended. For every url that is not a string (absent or of another type),
  \<open>apiRequest\<close> throws at once and builds no action: the error of \<open>logError\<close>, or
  the \<open>TypeError\<close> of matching the parameter pattern against \<open>null\<close> options.
\<close>

theorem apiRequest_requires_string:
  "\<not> isString url \<Longrightarrow>
   apiRequest url options =
     Inl (if options = Null then JsTypeError
          else JsError ''redux-api-middleware: apiRequest requires a string as the first argument'')"
  by (simp add: apiRequest_def logError_def Let_def)

theorem apiRequest_requires_string_witness:
  "\<not> isString (Obj fmempty) \<and>
   apiRequest (Obj fmempty) Undefined =
     Inl (JsError ''redux-api-middleware: apiRequest requires a string as the first argument'')"
proof -
  have h: "\<not> isString (Obj fmempty)" by (simp add: isString_def)
  show ?thesis
    using h apiRequest_requires_string [OF h, of Undefined] by simp
qed

subsection \<open>The interceptor\<close>

text \<open>
  C7. An action whose \<open>API\<close> field is missing (or falsy) is handed to the next link:
  the interceptor returns, or throws, exactly what \<open>next(action)\<close> does, and it
  dispatches nothing and calls nothing.
\<close>

theorem untagged_pass_through:
  "getProp action ''API'' = Inr api \<Longrightarrow> \<not> truthy api \<Longrightarrow>
   apiMiddleware E mw nxt action = (nxt action, [])"
  by (simp add: apiMiddleware_def seq_def lift_def)

theorem untagged_pass_through_witness:
  "getProp (Obj (fmap_of_list [(''type'', Str ''FOO'')])) ''API'' = Inr Undefined \<and>
   \<not> truthy Undefined \<and>
   apiMiddleware exampleEnv (created (Fn 0) Undefined) Inr
     (Obj (fmap_of_list [(''type'', Str ''FOO'')])) =
     (Inr (Obj (fmap_of_list [(''type'', Str ''FOO'')])), [])"
proof -
  have h1: "getProp (Obj (fmap_of_list [(''type'', Str ''FOO'')])) ''API'' = Inr Undefined"
    by (simp add: fmlookup_of_list)
  have h2: "\<not> truthy Undefined" by simp
  show ?thesis
    using h1 h2 untagged_pass_through [OF h1 h2, of exampleEnv "created (Fn 0) Undefined" Inr]
    by simp
qed

subsection \<open>The normalisation step\<close>

lemmas run_defs = apiMiddleware_def sendRequest_def chain_def successBranch_def
  failureBranch_def endTransition_def promiseFinally_def actionType_def dispatch_def

lemma outcome_json:
  assumes "resolved p = Fulfilled res" and "getProp res ''json'' = Inr (Fn j)"
  shows "outcome E p = settle (E j res [])" and "decodeEvents E p = [Call j res []]"
  using assms
  by (simp_all add: outcome_def decodeEvents_def promiseThen_def normalize_def seq_def lift_def
      isFunction_def split: prod.splits sum.splits)

lemma outcome_plain:
  assumes "resolved p = Fulfilled res" and "res \<noteq> Undefined" and "res \<noteq> Null"
    and "\<not> isFunction (field res ''json'')"
  shows "outcome E p = Fulfilled res" and "decodeEvents E p = []"
proof -
  have stable: "resolved (Fulfilled res) = Fulfilled res"
    using assms(1) by (metis resolved_idem)
  show "outcome E p = Fulfilled res" and "decodeEvents E p = []"
    using assms stable
    by (simp_all add: outcome_def decodeEvents_def promiseThen_def normalize_def seq_def
        lift_def ret_def getProp_field)
qed

lemma outcome_nullish:
  assumes "resolved p = Fulfilled res" and "res = Undefined \<or> res = Null"
  shows "outcome E p = Rejected JsTypeError" and "decodeEvents E p = []"
  using assms
  by (auto simp: outcome_def decodeEvents_def promiseThen_def normalize_def seq_def lift_def)

subsection \<open>Order of the dispatches\<close>

text \<open>
  C3, as the code has it. The claim speaks of every Tagged Action that carries a
  correlation type. The guards are \<open>if (type)\<close>, a test of truthiness: here the action
  carries the type \<open>""\<close> and the request rejects with \<open>"E"\<close>, and neither start
  nor failure nor end is dispatched. The request call is the only event.
\<close>

theorem empty_type_counterexample:
  "exampleEnv 1 Undefined [Str ''/url'', Obj fmempty] = Inr (Promise (Rejected (Str ''E''))) \<and>
   field (field (field (built (Str ''/url'') (Obj (fmap_of_list [(''type'', Str '''')])))
     ''API'') ''payload'') ''type'' = Str '''' \<and>
   apiMiddleware exampleEnv (created (Fn 1) Undefined) Inr
     (built (Str ''/url'') (Obj (fmap_of_list [(''type'', Str '''')]))) =
     (Inr (Promise (Fulfilled Undefined)), [Call 1 Undefined [Str ''/url'', Obj fmempty]])"
  by (simp add: run_defs eval_defs)

text \<open>
  C3, amended. Take an intercepted Tagged Action whose \<open>type\<close> is truthy (a string
  that is not empty, for one). When the request
  fails (its promise is rejected, at the request or at the decoding), the actions are
  dispatched in the order: start, failure, the action \<open>onFailure\<close> returns if it is
  callable, end. When the request succeeds the order is: start, the action
  \<open>onSuccess\<close> returns if it is callable, end. A continuation that throws returns no
  action. While the promise never settles only the start action is dispatched.
\<close>

theorem dispatch_order:
  assumes "intercepted E mw action payload r p"
    and "truthy (field payload ''type'')"
  shows "dispatched (snd (apiMiddleware E mw nxt action)) =
     (case outcome E p of
        Rejected e \<Rightarrow>
          [Obj (fmap_of_list [(''type'', label mw ''start''), (''payload'', field payload ''type'')]),
           Obj (fmap_of_list [(''type'', label mw ''failure''), (''payload'', e),
                              (''error'', Bool True)])] @
          continuation E (field payload ''onFailure'') e @
          [Obj (fmap_of_list [(''type'', label mw ''end''), (''payload'', field payload ''type'')])]
      | Fulfilled v \<Rightarrow>
          [Obj (fmap_of_list [(''type'', label mw ''start''), (''payload'', field payload ''type'')])] @
          continuation E (field payload ''onSuccess'') v @
          [Obj (fmap_of_list [(''type'', label mw ''end''), (''payload'', field payload ''type'')])]
      | Pending \<Rightarrow>
          [Obj (fmap_of_list [(''type'', label mw ''start''), (''payload'', field payload ''type'')])])"
proof -
  have lr: "labelsReadable mw"
    using assms(1) by (simp add: intercepted_def)
  show ?thesis
  proof (cases "outcome E p")
    case (Fulfilled v)
    then show ?thesis
      using assms(2)
      by (simp add: intercepted_run [OF assms(1)] chain_fulfilled [OF lr Fulfilled]
          lifecycle_def)
  next
    case (Rejected e)
    then show ?thesis
      using assms(2)
      by (simp add: intercepted_run [OF assms(1)] chain_rejected [OF lr Rejected]
          lifecycle_def failureEvents_def)
  next
    case Pending
    then show ?thesis
      using assms(2)
      by (simp add: intercepted_run [OF assms(1)] chain_pending [OF Pending] lifecycle_def)
  qed
qed

theorem dispatch_order_witness:
  "intercepted exampleEnv (created (Fn 1) Undefined)
     (built (Str ''/url'') (Obj (fmap_of_list [(''type'', Str ''T'')])))
     (Obj (fmap_of_list [(''type'', Str ''T''), (''url'', Str ''/url'')]))
     1 (Rejected (Str ''E'')) \<and>
   truthy (field (Obj (fmap_of_list [(''type'', Str ''T''), (''url'', Str ''/url'')])) ''type'') \<and>
   dispatched (snd (apiMiddleware exampleEnv (created (Fn 1) Undefined) Inr
     (built (Str ''/url'') (Obj (fmap_of_list [(''type'', Str ''T'')]))))) =
     [Obj (fmap_of_list [(''type'', Str ''API_REQUEST_START''), (''payload'', Str ''T'')]),
      Obj (fmap_of_list [(''type'', Str ''API_REQUEST_FAILURE''), (''payload'', Str ''E''),
                         (''error'', Bool True)]),
      Obj (fmap_of_list [(''type'', Str ''API_REQUEST_END''), (''payload'', Str ''T'')])] \<and>
   intercepted exampleEnv (created (Fn 0) Undefined)
     (built (Str ''/url'') (Obj (fmap_of_list [(''type'', Str ''T''), (''onSuccess'', Fn 3)])))
     (Obj (fmap_of_list [(''onSuccess'', Fn 3), (''type'', Str ''T''), (''url'', Str ''/url'')]))
     0 (Fulfilled (Str ''R'')) \<and>
   dispatched (snd (apiMiddleware exampleEnv (created (Fn 0) Undefined) Inr
     (built (Str ''/url'') (Obj (fmap_of_list [(''type'', Str ''T''), (''onSuccess'', Fn 3)]))))) =
     [Obj (fmap_of_list [(''type'', Str ''API_REQUEST_START''), (''payload'', Str ''T'')]),
      Obj (fmap_of_list [(''type'', Str ''OK''), (''payload'', Str ''R'')]),
      Obj (fmap_of_list [(''type'', Str ''API_REQUEST_END''), (''payload'', Str ''T'')])]"
proof -
  have h1: "intercepted exampleEnv (created (Fn 1) Undefined)
     (built (Str ''/url'') (Obj (fmap_of_list [(''type'', Str ''T'')])))
     (Obj (fmap_of_list [(''type'', Str ''T''), (''url'', Str ''/url'')]))
     1 (Rejected (Str ''E''))"
    by (simp add: eval_defs)
  have h2: "intercepted exampleEnv (created (Fn 0) Undefined)
     (built (Str ''/url'') (Obj (fmap_of_list [(''type'', Str ''T''), (''onSuccess'', Fn 3)])))
     (Obj (fmap_of_list [(''onSuccess'', Fn 3), (''type'', Str ''T''), (''url'', Str ''/url'')]))
     0 (Fulfilled (Str ''R''))"
    by (simp add: eval_defs)
  have t: "truthy (field (Obj (fmap_of_list [(''type'', Str ''T''), (''url'', Str ''/url'')])) ''type'')"
    by (simp add: eval_defs)
  have t2: "truthy (field (Obj (fmap_of_list [(''onSuccess'', Fn 3), (''type'', Str ''T''), (''url'', Str ''/url'')])) ''type'')"
    by (simp add: eval_defs)
  show ?thesis
    using h1 h2 t dispatch_order [OF h1 t, of Inr] dispatch_order [OF h2 t2, of Inr]
    by (simp add: eval_defs)
qed

subsection \<open>The promise the interceptor returns\<close>

text \<open>
  C4, as the code has it. The claim lets the returned promise resolve whenever the
  request promise rejects. Here the request rejects with \<open>"E"\<close> and \<open>onFailure\<close>
  throws \<open>"boom"\<close>: the returned promise is rejected with \<open>"boom"\<close>.
\<close>

theorem throwing_onFailure_counterexample:
  "exampleEnv 1 Undefined [Str ''/url'', Obj fmempty] = Inr (Promise (Rejected (Str ''E''))) \<and>
   fst (apiMiddleware exampleEnv (created (Fn 1) Undefined) Inr
          (built (Str ''/url'') (Obj (fmap_of_list [(''onFailure'', Fn 4)])))) =
     Inr (Promise (Rejected (Str ''boom'')))"
  by (simp add: run_defs eval_defs)

text \<open>
  C4, amended. For an intercepted Tagged Action: when the request fails, the returned
  promise is fulfilled with \<open>undefined\<close>, unless \<open>onFailure\<close> is callable and
  throws, and then it is rejected with what \<open>onFailure\<close> threw; when the request
  succeeds, it is fulfilled with the normalised payload, unless \<open>onSuccess\<close> is
  callable and throws, and then it is rejected with what \<open>onSuccess\<close> threw.
\<close>

theorem returned_promise:
  assumes "intercepted E mw action payload r p"
  shows "fst (apiMiddleware E mw nxt action) =
     Inr (Promise
       (case outcome E p of
          Rejected e \<Rightarrow>
            (case thrownBy E (field payload ''onFailure'') e of
               None \<Rightarrow> Fulfilled Undefined
             | Some x \<Rightarrow> Rejected x)
        | Fulfilled v \<Rightarrow>
            (case thrownBy E (field payload ''onSuccess'') v of
               None \<Rightarrow> Fulfilled v
             | Some x \<Rightarrow> Rejected x)
        | Pending \<Rightarrow> Pending))"
proof -
  have lr: "labelsReadable mw"
    using assms by (simp add: intercepted_def)
  show ?thesis
  proof (cases "outcome E p")
    case (Fulfilled v)
    then show ?thesis
      by (simp add: intercepted_run [OF assms] chain_fulfilled [OF lr Fulfilled])
  next
    case (Rejected e)
    then show ?thesis
      by (simp add: intercepted_run [OF assms] chain_rejected [OF lr Rejected])
  next
    case Pending
    then show ?thesis
      by (simp add: intercepted_run [OF assms] chain_pending [OF Pending])
  qed
qed

theorem returned_promise_witness:
  "intercepted exampleEnv (created (Fn 1) Undefined)
     (built (Str ''/url'') (Obj (fmap_of_list [(''type'', Str ''T'')])))
     (Obj (fmap_of_list [(''type'', Str ''T''), (''url'', Str ''/url'')]))
     1 (Rejected (Str ''E'')) \<and>
   fst (apiMiddleware exampleEnv (created (Fn 1) Undefined) Inr
          (built (Str ''/url'') (Obj (fmap_of_list [(''type'', Str ''T'')])))) =
     Inr (Promise (Fulfilled Undefined)) \<and>
   intercepted exampleEnv (created (Fn 5) Undefined)
     (built (Str ''/url'') (Obj (fmap_of_list [(''onSuccess'', Fn 3)])))
     (Obj (fmap_of_list [(''onSuccess'', Fn 3), (''type'', Undefined), (''url'', Str ''/url'')]))
     5 (Fulfilled (Obj (fmap_of_list [(''json'', Fn 6)]))) \<and>
   fst (apiMiddleware exampleEnv (created (Fn 5) Undefined) Inr
          (built (Str ''/url'') (Obj (fmap_of_list [(''onSuccess'', Fn 3)])))) =
     Inr (Promise (Fulfilled (Str ''some json'')))"
proof -
  have h1: "intercepted exampleEnv (created (Fn 1) Undefined)
     (built (Str ''/url'') (Obj (fmap_of_list [(''type'', Str ''T'')])))
     (Obj (fmap_of_list [(''type'', Str ''T''), (''url'', Str ''/url'')]))
     1 (Rejected (Str ''E''))"
    by (simp add: eval_defs)
  have h2: "intercepted exampleEnv (created (Fn 5) Undefined)
     (built (Str ''/url'') (Obj (fmap_of_list [(''onSuccess'', Fn 3)])))
     (Obj (fmap_of_list [(''onSuccess'', Fn 3), (''type'', Undefined), (''url'', Str ''/url'')]))
     5 (Fulfilled (Obj (fmap_of_list [(''json'', Fn 6)])))"
    by (simp add: eval_defs)
  show ?thesis
    using h1 h2 returned_promise [OF h1, of Inr] returned_promise [OF h2, of Inr]
    by (simp add: eval_defs)
qed

subsection \<open>The options of the request\<close>

text \<open>
  C5. For a Tagged Action, the first call the interceptor makes is the request
  primitive, on the url and the merged options, right after the start action if there
  is one. In the merged options a key among the extra fields of the payload (every
  field other than \<open>type\<close>, \<open>url\<close>, \<open>onSuccess\<close>, \<open>onFailure\<close>) has the
  value the payload gives it; any other key has the value of \<open>requestDefaults\<close>.
\<close>

theorem request_invocation:
  assumes "tagged action payload" and "labelsReadable mw"
    and "mw_options mw \<noteq> Undefined" and "mw_options mw \<noteq> Null"
    and "mw_request mw = Fn r"
  shows "(\<exists>post. snd (apiMiddleware E mw nxt action) =
            lifecycle (label mw ''start'') (field payload ''type'') @
            Call r Undefined [field payload ''url'', requestOptions mw payload] # post) \<and>
         (\<forall>k. fmlookup (ownProps (requestOptions mw payload)) k =
            (if k \<in> {''type'', ''url'', ''onSuccess'', ''onFailure''}
             then fmlookup (ownProps (field (mw_options mw) ''requestDefaults'')) k
             else case fmlookup (ownProps payload) k of
                    Some v \<Rightarrow> Some v
                  | None \<Rightarrow> fmlookup (ownProps (field (mw_options mw) ''requestDefaults'')) k))"
proof
  have rd: "getProp (mw_options mw) ''requestDefaults'' =
      Inr (field (mw_options mw) ''requestDefaults'')"
    using assms(3,4) by (rule getProp_field)
  show "\<exists>post. snd (apiMiddleware E mw nxt action) =
            lifecycle (label mw ''start'') (field payload ''type'') @
            Call r Undefined [field payload ''url'', requestOptions mw payload] # post"
    unfolding tagged_run [OF assms(1,2) rd] sendRequest_def
      requestOptions_def [symmetric, unfolded extraFields_def]
    by (simp add: seq_def assms(5) split: prod.splits sum.splits)
next
  show "\<forall>k. fmlookup (ownProps (requestOptions mw payload)) k =
            (if k \<in> {''type'', ''url'', ''onSuccess'', ''onFailure''}
             then fmlookup (ownProps (field (mw_options mw) ''requestDefaults'')) k
             else case fmlookup (ownProps payload) k of
                    Some v \<Rightarrow> Some v
                  | None \<Rightarrow> fmlookup (ownProps (field (mw_options mw) ''requestDefaults'')) k)"
    by (auto simp: requestOptions_def extraFields_def fmlookup_dom_iff split: option.splits)
qed

theorem request_invocation_witness:
  "tagged (built (Str ''/url'') (Obj (fmap_of_list [(''type'', Str ''T''), (''opt'', Str ''mine'')])))
     (Obj (fmap_of_list [(''opt'', Str ''mine''), (''type'', Str ''T''), (''url'', Str ''/url'')])) \<and>
   labelsReadable (created (Fn 0) (Obj (fmap_of_list [(''requestDefaults'',
     Obj (fmap_of_list [(''opt'', Str ''v''), (''base'', Str ''b'')]))]))) \<and>
   snd (apiMiddleware exampleEnv
     (created (Fn 0) (Obj (fmap_of_list [(''requestDefaults'',
        Obj (fmap_of_list [(''opt'', Str ''v''), (''base'', Str ''b'')]))])))
     Inr (built (Str ''/url'') (Obj (fmap_of_list [(''type'', Str ''T''), (''opt'', Str ''mine'')])))) =
     [Dispatch (Obj (fmap_of_list [(''type'', Str ''API_REQUEST_START''), (''payload'', Str ''T'')])),
      Call 0 Undefined [Str ''/url'',
        Obj (fmap_of_list [(''opt'', Str ''mine''), (''base'', Str ''b'')])],
      Dispatch (Obj (fmap_of_list [(''type'', Str ''API_REQUEST_END''), (''payload'', Str ''T'')]))]"
proof -
  let ?mw = "created (Fn 0) (Obj (fmap_of_list [(''requestDefaults'',
     Obj (fmap_of_list [(''opt'', Str ''v''), (''base'', Str ''b'')]))]))"
  let ?action = "built (Str ''/url'')
     (Obj (fmap_of_list [(''type'', Str ''T''), (''opt'', Str ''mine'')]))"
  let ?payload = "Obj (fmap_of_list
     [(''opt'', Str ''mine''), (''type'', Str ''T''), (''url'', Str ''/url'')])"
  have h1: "tagged ?action ?payload" by (simp add: eval_defs)
  have h2: "labelsReadable ?mw" by (simp add: eval_defs)
  have h3: "mw_options ?mw \<noteq> Undefined" by (simp add: eval_defs)
  have h4: "mw_options ?mw \<noteq> Null" by (simp add: eval_defs)
  have h5: "mw_request ?mw = Fn 0" by (simp add: eval_defs)
  show ?thesis
    using h1 h2 request_invocation [OF h1 h2 h3 h4 h5, of exampleEnv Inr]
    by (simp add: run_defs eval_defs)
qed

subsection \<open>Normalisation of the response\<close>




subsection \<open>A response that is null or undefined\<close>

text \<open>
  C10, as the code has it. The claim lets the returned promise resolve with
  \<open>undefined\<close> after \<open>onFailure\<close> was called. Here the request resolves with
  \<open>null\<close> and \<open>onFailure\<close> throws \<open>"boom"\<close>: the failure action is dispatched,
  \<open>onFailure\<close> is called with the \<open>TypeError\<close>, and the returned promise is
  rejected with \<open>"boom"\<close>.
\<close>

theorem nullish_throwing_onFailure_counterexample:
  "exampleEnv 2 Undefined [Str ''/url'', Obj fmempty] = Inr (Promise (Fulfilled Null)) \<and>
   apiMiddleware exampleEnv (created (Fn 2) Undefined) Inr
     (built (Str ''/url'') (Obj (fmap_of_list [(''type'', Str ''T''), (''onFailure'', Fn 4)]))) =
     (Inr (Promise (Rejected (Str ''boom''))),
      [Dispatch (Obj (fmap_of_list [(''type'', Str ''API_REQUEST_START''), (''payload'', Str ''T'')])),
       Call 2 Undefined [Str ''/url'', Obj fmempty],
       Dispatch (Obj (fmap_of_list [(''type'', Str ''API_REQUEST_FAILURE''),
                   (''payload'', JsTypeError), (''error'', Bool True)])),
       Call 4 Undefined [JsTypeError],
       Dispatch (Obj (fmap_of_list [(''type'', Str ''API_REQUEST_END''), (''payload'', Str ''T'')]))])"
  by (simp add: run_defs eval_defs)

text \<open>
  C10, amended. For an intercepted Tagged Action whose request promise is fulfilled
  with \<open>null\<close> or \<open>undefined\<close>, reading \<open>json\<close> throws a \<open>TypeError\<close> and the
  failure branch runs: the failure action carries the \<open>TypeError\<close> (when \<open>type\<close>
  is truthy), a callable \<open>onFailure\<close> is called with it and the action it returns is
  dispatched, then the end action. \<open>onSuccess\<close> is not called. The returned promise
  is fulfilled with \<open>undefined\<close>, unless \<open>onFailure\<close> is callable and throws, and
  then it is rejected with what \<open>onFailure\<close> threw.
\<close>

theorem nullish_response_fails:
  assumes "intercepted E mw action payload r p" and "resolved p = Fulfilled res"
    and "res = Undefined \<or> res = Null"
  shows "apiMiddleware E mw nxt action =
     (Inr (Promise (case thrownBy E (field payload ''onFailure'') JsTypeError of
                      None \<Rightarrow> Fulfilled Undefined
                    | Some x \<Rightarrow> Rejected x)),
      lifecycle (label mw ''start'') (field payload ''type'') @
      [Call r Undefined [field payload ''url'', requestOptions mw payload]] @
      failureEvents (label mw ''failure'') (field payload ''type'') JsTypeError @
      callbackEvents E (field payload ''onFailure'') JsTypeError @
      lifecycle (label mw ''end'') (field payload ''type''))"
proof -
  have lr: "labelsReadable mw"
    using assms(1) by (simp add: intercepted_def)
  have "outcome E p = Rejected JsTypeError"
    by (rule outcome_nullish(1) [OF assms(2,3)])
  then show ?thesis
    by (simp add: intercepted_run [OF assms(1)] chain_rejected [OF lr]
        outcome_nullish(2) [OF assms(2,3)])
qed

theorem nullish_response_fails_witness:
  "intercepted exampleEnv (created (Fn 2) Undefined)
     (built (Str ''/url'') (Obj (fmap_of_list [(''type'', Str ''T''), (''onFailure'', Fn 3)])))
     (Obj (fmap_of_list [(''onFailure'', Fn 3), (''type'', Str ''T''), (''url'', Str ''/url'')]))
     2 (Fulfilled Null) \<and>
   resolved (Fulfilled Null) = Fulfilled Null \<and>
   apiMiddleware exampleEnv (created (Fn 2) Undefined) Inr
     (built (Str ''/url'') (Obj (fmap_of_list [(''type'', Str ''T''), (''onFailure'', Fn 3)]))) =
     (Inr (Promise (Fulfilled Undefined)),
      [Dispatch (Obj (fmap_of_list [(''type'', Str ''API_REQUEST_START''), (''payload'', Str ''T'')])),
       Call 2 Undefined [Str ''/url'', Obj fmempty],
       Dispatch (Obj (fmap_of_list [(''type'', Str ''API_REQUEST_FAILURE''),
                   (''payload'', JsTypeError), (''error'', Bool True)])),
       Call 3 Undefined [JsTypeError],
       Dispatch (Obj (fmap_of_list [(''type'', Str ''OK''), (''payload'', JsTypeError)])),
       Dispatch (Obj (fmap_of_list [(''type'', Str ''API_REQUEST_END''), (''payload'', Str ''T'')]))])"
proof -
  let ?action = "built (Str ''/url'')
     (Obj (fmap_of_list [(''type'', Str ''T''), (''onFailure'', Fn 3)]))"
  let ?payload = "Obj (fmap_of_list
     [(''onFailure'', Fn 3), (''type'', Str ''T''), (''url'', Str ''/url'')])"
  have h1: "intercepted exampleEnv (created (Fn 2) Undefined) ?action ?payload 2 (Fulfilled Null)"
    by (simp add: eval_defs)
  have h2: "resolved (Fulfilled Null) = Fulfilled Null"
    by (simp add: resolved_value)
  have h3: "Null = Undefined \<or> Null = Null" by simp
  show ?thesis
    using h1 h2 nullish_response_fails [OF h1 h2 h3, of Inr]
    by (simp add: eval_defs lifecycle_def failureEvents_def callbackEvents_def)
qed

subsection \<open>Partial action types\<close>

text \<open>
  The labels of a middleware: those of the \<open>actionTypes\<close> the configuration
  supplies, whatever it holds, and the defaults only when it supplies none.
\<close>

lemma label_supplied:
  assumes "createApiMiddleware request config = Inr mw"
    and "fmlookup (ownProps config) ''actionTypes'' = Some ats"
  shows "label mw name = field ats name"
  using assms
  by (auto simp: createApiMiddleware_def Let_def logError_def label_def field_def
      objectAssign_def defaults_def fmlookup_of_list fmlookup_dom_iff
      split: if_splits option.splits)

lemma label_default:
  assumes "createApiMiddleware request config = Inr mw"
    and "fmlookup (ownProps config) ''actionTypes'' = None"
  shows "label mw ''start'' = Str ''API_REQUEST_START''"
    and "label mw ''end'' = Str ''API_REQUEST_END''"
    and "label mw ''failure'' = Str ''API_REQUEST_FAILURE''"
  using assms
  by (auto simp: createApiMiddleware_def Let_def logError_def label_def field_def
      objectAssign_def defaults_def fmlookup_of_list fmlookup_dom_iff
      split: if_splits option.splits)


text \<open>
  C1, on the code. \<open>Object.assign({}, defaults, options)\<close> copies the top level only:
  a configuration \<open>{actionTypes: {start: "START"}}\<close> replaces the whole default
  \<open>actionTypes\<close>. With a request that resolves and an action of type \<open>"T"\<close>, the
  start action has the label \<open>"START"\<close> and the end action has the label
  \<open>undefined\<close>, not \<open>"API_REQUEST_END"\<close>.
\<close>

theorem partial_actionTypes_lose_defaults:
  "dispatched (snd (apiMiddleware exampleEnv
     (created (Fn 0) (Obj (fmap_of_list
        [(''actionTypes'', Obj (fmap_of_list [(''start'', Str ''START'')]))])))
     Inr (built (Str ''/url'') (Obj (fmap_of_list [(''type'', Str ''T'')]))))) =
     [Obj (fmap_of_list [(''type'', Str ''START''), (''payload'', Str ''T'')]),
      Obj (fmap_of_list [(''type'', Undefined), (''payload'', Str ''T'')])]"
  by (simp add: run_defs eval_defs)

subsection \<open>Computations that dispatch nothing\<close>

lemma quiet_seq:
  assumes "dispatched (snd m) = []" and "\<And>v. dispatched (snd (f v)) = []"
  shows "dispatched (snd (seq m f)) = []"
proof (cases m)
  case (Pair res t)
  show ?thesis
  proof (cases res)
    case (Inl e)
    with Pair assms(1) show ?thesis by (simp add: seq_def)
  next
    case (Inr v)
    with Pair assms(1) assms(2) [of v] show ?thesis
      by (cases "f v") (simp add: seq_def)
  qed
qed

lemma quiet_lift [simp]: "dispatched (snd (lift res)) = []"
  by (simp add: lift_def)

lemma quiet_ret [simp]: "dispatched (snd (ret v)) = []"
  by (simp add: ret_def)

lemma quiet_callFn [simp]: "dispatched (snd (callFn E f this args)) = []"
  by (cases f) simp_all

lemma quiet_normalize [simp]: "dispatched (snd (normalize E res)) = []"
  unfolding normalize_def by (rule quiet_seq) simp_all

lemma quiet_promiseThen:
  assumes "\<And>v. dispatched (snd (f v)) = []" and "\<And>e. dispatched (snd (g e)) = []"
  shows "dispatched (snd (promiseThen f g p)) = []"
proof (cases "resolved p")
  case (Fulfilled v)
  with assms(1) [of v] show ?thesis
    by (cases "f v") (simp add: promiseThen_def)
next
  case (Rejected e)
  with assms(2) [of e] show ?thesis
    by (cases "g e") (simp add: promiseThen_def)
next
  case Pending
  then show ?thesis by (simp add: promiseThen_def)
qed

lemma quiet_promiseFinally:
  assumes "dispatched (snd cb) = []"
  shows "dispatched (snd (promiseFinally cb p)) = []"
  using assms
  by (cases cb; cases "fst cb"; cases "resolved p") (simp_all add: promiseFinally_def)

lemma quiet_chain:
  assumes "\<not> truthy type" and "\<not> isFunction onSuccess" and "\<not> isFunction onFailure"
  shows "dispatched (snd (chain E mw type onSuccess onFailure p)) = []"
proof -
  have s: "dispatched (snd (successBranch E onSuccess v)) = []" for v
    using assms(2) by (simp add: successBranch_def seq_def ret_def)
  have f: "dispatched (snd (failureBranch E mw type onFailure e)) = []" for e
    using assms(1,3) by (simp add: failureBranch_def seq_def ret_def)
  have e: "dispatched (snd (endTransition mw type)) = []"
    using assms(1) by (simp add: endTransition_def)
  have t1: "dispatched (snd (promiseThen (normalize E) rethrow p)) = []"
    by (rule quiet_promiseThen) (simp_all add: rethrow_def)
  have t2: "dispatched (snd (promiseThen (successBranch E onSuccess)
      (failureBranch E mw type onFailure) q)) = []" for q
    by (rule quiet_promiseThen) (rule s f)+
  have t3: "dispatched (snd (promiseFinally (endTransition mw type) q)) = []" for q
    by (rule quiet_promiseFinally) (rule e)
  show ?thesis
    using t1 t2 t3 by (simp add: chain_def split: prod.splits) (metis snd_conv)
qed

lemma quiet_sendRequest:
  assumes "\<not> truthy type" and "\<not> isFunction onSuccess" and "\<not> isFunction onFailure"
  shows "dispatched (snd (sendRequest E mw type url onSuccess onFailure ro)) = []"
  unfolding sendRequest_def
proof (rule quiet_seq)
  show "dispatched (snd (callFn E (mw_request mw) Undefined [url, ro])) = []"
    by simp
next
  fix v
  show "dispatched (snd (case v of
      Promise p \<Rightarrow> (case chain E mw type onSuccess onFailure p of
                      (p3, t) \<Rightarrow> (Inr (Promise p3), t))
    | _ \<Rightarrow> (Inl JsTypeError, []))) = []"
    using quiet_chain [OF assms, of E mw]
    by (cases v) (auto split: prod.splits, metis snd_conv)
qed

text \<open>
  C9. For a Tagged Action whose \<open>type\<close> is missing (or falsy) and whose
  \<open>onSuccess\<close> and \<open>onFailure\<close> are not functions, the interceptor dispatches
  nothing, whatever the middleware, the request primitive and its outcome.
\<close>

theorem no_type_no_dispatch:
  assumes "tagged action payload"
    and "\<not> truthy (field payload ''type'')"
    and "\<not> isFunction (field payload ''onSuccess'')"
    and "\<not> isFunction (field payload ''onFailure'')"
  shows "dispatched (snd (apiMiddleware E mw nxt action)) = []"
proof -
  obtain api where api: "getProp action ''API'' = Inr api" "truthy api"
      "getProp api ''payload'' = Inr payload" "payload \<noteq> Undefined" "payload \<noteq> Null"
    using assms(1) by (auto simp: tagged_def split: sum.splits)
  have run: "apiMiddleware E mw nxt action =
      seq (lift (getProp (mw_options mw) ''requestDefaults'')) (\<lambda>rd.
        sendRequest E mw (field payload ''type'') (field payload ''url'')
          (field payload ''onSuccess'') (field payload ''onFailure'')
          (Obj (objectAssign fmempty [rd, Obj (fmdrop_fset
             {|''type'', ''url'', ''onSuccess'', ''onFailure''|} (ownProps payload))])))"
    using api assms(2)
    by (auto simp: apiMiddleware_def seq_def lift_def ret_def Let_def
        split: sum.splits prod.splits)
  show ?thesis
    unfolding run
    by (rule quiet_seq) (simp_all add: quiet_sendRequest [OF assms(2-4)])
qed

theorem no_type_no_dispatch_witness:
  "tagged (built (Str ''/url'') (Obj (fmap_of_list [(''option'', Str ''value'')])))
     (Obj (fmap_of_list [(''option'', Str ''value''), (''type'', Undefined), (''url'', Str ''/url'')])) \<and>
   \<not> truthy (field (Obj (fmap_of_list
       [(''option'', Str ''value''), (''type'', Undefined), (''url'', Str ''/url'')])) ''type'') \<and>
   \<not> isFunction (field (Obj (fmap_of_list
       [(''option'', Str ''value''), (''type'', Undefined), (''url'', Str ''/url'')])) ''onSuccess'') \<and>
   \<not> isFunction (field (Obj (fmap_of_list
       [(''option'', Str ''value''), (''type'', Undefined), (''url'', Str ''/url'')])) ''onFailure'') \<and>
   dispatched (snd (apiMiddleware exampleEnv (created (Fn 0) Undefined) Inr
     (built (Str ''/url'') (Obj (fmap_of_list [(''option'', Str ''value'')]))))) = [] \<and>
   dispatched (snd (apiMiddleware exampleEnv (created (Fn 1) Undefined) Inr
     (built (Str ''/url'') (Obj (fmap_of_list [(''option'', Str ''value'')]))))) = []"
proof -
  let ?action = "built (Str ''/url'') (Obj (fmap_of_list [(''option'', Str ''value'')]))"
  let ?payload = "Obj (fmap_of_list
     [(''option'', Str ''value''), (''type'', Undefined), (''url'', Str ''/url'')])"
  have h1: "tagged ?action ?payload" by (simp add: eval_defs)
  have h2: "\<not> truthy (field ?payload ''type'')" by (simp add: eval_defs)
  have h3: "\<not> isFunction (field ?payload ''onSuccess'')" by (simp add: eval_defs)
  have h4: "\<not> isFunction (field ?payload ''onFailure'')" by (simp add: eval_defs)
  show ?thesis
    using h1 h2 h3 h4
      no_type_no_dispatch [OF h1 h2 h3 h4, of exampleEnv "created (Fn 0) Undefined" Inr]
      no_type_no_dispatch [OF h1 h2 h3 h4, of exampleEnv "created (Fn 1) Undefined" Inr]
    by simp
qed

end
